theory Spec2Isabelle
  imports Main "HOL-Library.Sublist"
begin

section \<open>Python strings\<close>

text \<open>
  A Python \<open>str\<close> is modelled as a \<open>string\<close> (a list of characters). The three
  characters the provisioning code treats specially are named here.
\<close>

abbreviation backslash :: char where "backslash \<equiv> CHR 0x5C"
abbreviation dquote :: char where "dquote \<equiv> CHR 0x22"
abbreviation newline :: char where "newline \<equiv> CHR 0x0A"
abbreviation carriage_return :: char where "carriage_return \<equiv> CHR 0x0D"
abbreviation nul :: char where "nul \<equiv> CHR 0x00"

text \<open>
  \<open>s.replace(old, new)\<close> where \<open>old\<close> is a single character, which is the only way
  the source calls it: every occurrence of \<open>old\<close>, left to right, becomes \<open>new\<close>.
\<close>

fun str_replace :: "char \<Rightarrow> string \<Rightarrow> string \<Rightarrow> string" where
  "str_replace old new [] = []"
| "str_replace old new (c # cs) =
     (if c = old then new @ str_replace old new cs else c # str_replace old new cs)"

text \<open>\<open>needle in haystack\<close> on strings: the needle occurs as a contiguous run.\<close>

fun str_in :: "string \<Rightarrow> string \<Rightarrow> bool" where
  "str_in needle [] = (needle = [])"
| "str_in needle (c # cs) = (prefix needle (c # cs) \<or> str_in needle cs)"

text \<open>
  \<open>s.strip()\<close>: leading and trailing whitespace removed. The whitespace characters
  are those of \<open>str.isspace\<close> among the code points below 256.
\<close>

definition isspace :: "char \<Rightarrow> bool" where
  "isspace c = (c \<in> {CHR 0x09, CHR 0x0A, CHR 0x0B, CHR 0x0C, CHR 0x0D,
                      CHR 0x1C, CHR 0x1D, CHR 0x1E, CHR 0x1F, CHR 0x20, CHR 0x85, CHR 0xA0})"

definition strip :: "string \<Rightarrow> string" where
  "strip s = rev (dropWhile isspace (rev (dropWhile isspace s)))"

text \<open>\<open>s.split(sep)\<close> for a one-character separator; \<open>cur\<close> is the field being read, reversed.\<close>

fun split_aux :: "char \<Rightarrow> string \<Rightarrow> string \<Rightarrow> string list" where
  "split_aux sep cur [] = [rev cur]"
| "split_aux sep cur (c # cs) =
     (if c = sep then rev cur # split_aux sep [] cs else split_aux sep (c # cur) cs)"

definition str_split :: "char \<Rightarrow> string \<Rightarrow> string list" where
  "str_split sep s = split_aux sep [] s"

text \<open>
  \<open>s.splitlines()\<close>: the line boundaries of Python among the code points below 256;
  a carriage return followed by a line feed is one boundary, and a final boundary
  does not open an empty last line.
\<close>

definition is_linebreak :: "char \<Rightarrow> bool" where
  "is_linebreak c = (c \<in> {CHR 0x0A, CHR 0x0B, CHR 0x0C, CHR 0x0D,
                          CHR 0x1C, CHR 0x1D, CHR 0x1E, CHR 0x85})"

fun splitlines_aux :: "string \<Rightarrow> string \<Rightarrow> string list" where
  "splitlines_aux cur [] = (if cur = [] then [] else [rev cur])"
| "splitlines_aux cur [c] = (if is_linebreak c then [rev cur] else [rev (c # cur)])"
| "splitlines_aux cur (c # d # cs) =
     (if c = CHR 0x0D \<and> d = CHR 0x0A then rev cur # splitlines_aux [] cs
      else if is_linebreak c then rev cur # splitlines_aux [] (d # cs)
      else splitlines_aux (c # cur) (d # cs))"

definition splitlines :: "string \<Rightarrow> string list" where
  "splitlines s = splitlines_aux [] s"

text \<open>
  What reading a file in text mode does to line ends (the default \<open>newline=None\<close> of
  \<open>open\<close>, which \<open>Path.read_text\<close> uses): a carriage return followed by a line feed
  becomes one line feed, and any other carriage return becomes a line feed. Writing in
  text mode on the device (Linux) changes nothing: a carriage return is written as it is.
\<close>

fun universal_newlines :: "string \<Rightarrow> string" where
  "universal_newlines [] = []"
| "universal_newlines [c] = (if c = carriage_return then [newline] else [c])"
| "universal_newlines (c # d # cs) =
     (if c = carriage_return \<and> d = newline then newline # universal_newlines cs
      else if c = carriage_return then newline # universal_newlines (d # cs)
      else c # universal_newlines (d # cs))"

section \<open>The world the provisioning utility acts on\<close>

text \<open>
  Every effect of \<open>wifi_setup.py\<close> on its surroundings is an event of the trace, in
  the order the program performs it: an external command that was started (its
  argument list, the \<open>check\<close> flag it ran under and its exit status), the creation
  of the parent directories, the opening of the configuration file for appending
  (whether it succeeded), the write to it (the text that reached the file, and whether
  the write completed), the start of the background thread, a sleep, the end of the
  process, and the call that binds and runs the web server.
\<close>

datatype event =
    Exec "string list" bool int
  | Mkdir bool
  | Open bool
  | Write string bool
  | ThreadStart
  | Sleep nat
  | Exit int
  | AppRun string int

text \<open>
  The exceptions that reach the code: \<open>ValueError\<close> raised by \<open>subprocess.run\<close>
  before anything is started when an argument holds a NUL character,
  \<open>subprocess.CalledProcessError\<close> (exit status and command) raised by it under
  \<open>check=True\<close>, \<open>OSError\<close> raised by a failing operation on the file system, and
  \<open>SystemExit\<close> raised by the argument parser. The program \<open>nmcli\<close> is taken to
  be installed, and a file that exists is taken to be readable; log records are left out.
\<close>

datatype error =
    ValueError
  | CalledProcessError int "string list"
  | OSError
  | SystemExit int

text \<open>
  The mutable state: the characters stored in
  \<open>/etc/wpa_supplicant/wpa_supplicant.conf\<close>, as they were written (\<open>None\<close> when the
  file does not exist), the two module globals, and the trace.
\<close>

record world =
  wpa_file :: "string option"
  WIFI_INTERFACE :: string
  HOTSPOT_CONNECTION_NAME :: string
  trace :: "event list"

text \<open>
  What the program cannot decide is a parameter: the exit status and standard output
  of an external command (the output as the decoded text \<open>subprocess.run\<close> hands
  over), whether creating the directories fails, whether opening the
  file fails, whether the write fails and then after how many characters
  (\<open>Some n\<close>: it fails when \<open>n\<close> characters have reached the file), and whether the
  connectivity probe succeeds. Each answer may depend on everything that happened
  before (the trace), so a retry may end differently.
\<close>

record env =
  subprocess :: "event list \<Rightarrow> string list \<Rightarrow> int \<times> string"
  mkdir_raises :: "event list \<Rightarrow> bool"
  open_raises :: "event list \<Rightarrow> bool"
  write_fails :: "event list \<Rightarrow> nat option"
  online :: "event list \<Rightarrow> bool"

type_synonym 'a action = "world \<Rightarrow> (error + 'a) \<times> world"

text \<open>Statement sequencing: an exception of the first statement skips the second.\<close>

definition seq :: "'a action \<Rightarrow> ('a \<Rightarrow> 'b action) \<Rightarrow> 'b action" where
  "seq m f s = (case m s of (Inl e, s') \<Rightarrow> (Inl e, s') | (Inr x, s') \<Rightarrow> f x s')"

section \<open>External commands\<close>

definition HOTSPOT_SSID :: string where "HOTSPOT_SSID = ''SmartLock-Setup''"
definition HOTSPOT_PASSWORD :: string where "HOTSPOT_PASSWORD = ''electroniccliks''"

text \<open>An argument list that \<open>subprocess.run\<close> refuses: some argument holds a NUL.\<close>

definition embedded_nul :: "string list \<Rightarrow> bool" where
  "embedded_nul command = list_ex (\<lambda>arg. nul \<in> set arg) command"

definition run_command :: "env \<Rightarrow> string list \<Rightarrow> bool \<Rightarrow> (int \<times> string) action" where
  "run_command env command check s =
     (if embedded_nul command then (Inl ValueError, s)
      else (let (returncode, stdout) = subprocess env (trace s) command;
                s' = s\<lparr>trace := trace s @ [Exec command check returncode]\<rparr>
            in if check \<and> returncode \<noteq> 0
               then (Inl (CalledProcessError returncode command), s')
               else (Inr (returncode, stdout), s')))"

definition is_internet_connected :: "env \<Rightarrow> world \<Rightarrow> bool" where
  "is_internet_connected env s = online env (trace s)"

text \<open>The \<open>for\<close> loop of \<open>detect_wifi_interface\<close> over the lines of the device list.\<close>

fun first_wifi_device :: "string list \<Rightarrow> string" where
  "first_wifi_device [] = []"
| "first_wifi_device (line # rest) =
     (let parts = str_split (CHR '':'') line
      in if length parts \<ge> 2 \<and> parts ! 1 = ''wifi'' \<and> parts ! 0 \<noteq> [] then parts ! 0
         else first_wifi_device rest)"

definition detect_wifi_interface :: "env \<Rightarrow> string action" where
  "detect_wifi_interface env =
     seq (run_command env [''nmcli'', ''-t'', ''-f'', ''DEVICE,TYPE'', ''device'', ''status''] True)
       (\<lambda>(returncode, stdout) s. (Inr (first_wifi_device (splitlines stdout)), s))"

text \<open>The \<open>for\<close> loop of \<open>get_active_connection_for_device\<close>.\<close>

fun first_connection_on :: "string \<Rightarrow> string list \<Rightarrow> string" where
  "first_connection_on device [] = []"
| "first_connection_on device (line # rest) =
     (let parts = str_split (CHR '':'') line
      in if length parts \<ge> 2 \<and> parts ! 1 = device then parts ! 0
         else first_connection_on device rest)"

definition get_active_connection_for_device :: "env \<Rightarrow> string \<Rightarrow> string action" where
  "get_active_connection_for_device env device =
     seq (run_command env
            [''nmcli'', ''-t'', ''-f'', ''NAME,DEVICE'', ''connection'', ''show'', ''--active''] True)
       (\<lambda>(returncode, stdout) s. (Inr (first_connection_on device (splitlines stdout)), s))"

section \<open>Hotspot controller\<close>

definition start_hotspot :: "env \<Rightarrow> unit action" where
  "start_hotspot env =
     seq (\<lambda>s. run_command env
                 [''nmcli'', ''device'', ''set'', WIFI_INTERFACE s, ''managed'', ''yes''] False s)
     (\<lambda>_. seq (\<lambda>s. run_command env
                 [''nmcli'', ''device'', ''wifi'', ''hotspot'', ''ifname'', WIFI_INTERFACE s,
                  ''ssid'', HOTSPOT_SSID, ''password'', HOTSPOT_PASSWORD] True s)
     (\<lambda>_. seq (\<lambda>s. get_active_connection_for_device env (WIFI_INTERFACE s) s)
     (\<lambda>name s. (Inr (),
         s\<lparr>HOTSPOT_CONNECTION_NAME := (if name \<noteq> [] then name else ''Hotspot'')\<rparr>))))"

definition stop_hotspot :: "env \<Rightarrow> unit action" where
  "stop_hotspot env s =
     (if HOTSPOT_CONNECTION_NAME s \<noteq> []
      then seq (run_command env
                  [''nmcli'', ''connection'', ''down'', HOTSPOT_CONNECTION_NAME s] False)
             (\<lambda>_ s'. (Inr (), s')) s
      else (Inr (), s))"

section \<open>Credential persistor\<close>

definition escape_wpa :: "string \<Rightarrow> string" where
  "escape_wpa v =
     str_replace dquote [backslash, dquote] (str_replace backslash [backslash, backslash] v)"

text \<open>The string the presence check searches for: \<open>f'ssid="{escape_wpa(ssid)}"'\<close>.\<close>

definition ssid_entry :: "string \<Rightarrow> string" where
  "ssid_entry ssid = ''ssid='' @ [dquote] @ escape_wpa ssid @ [dquote]"

definition network_block :: "string \<Rightarrow> string \<Rightarrow> string" where
  "network_block ssid password =
     [newline] @ ''network={'' @ [newline]
     @ ''    ssid='' @ [dquote] @ escape_wpa ssid @ [dquote, newline]
     @ ''    psk='' @ [dquote] @ escape_wpa password @ [dquote, newline]
     @ ''    key_mgmt=WPA-PSK'' @ [newline]
     @ ''}'' @ [newline]"

text \<open>
  \<open>WPA_SUPPLICANT_FILE.exists()\<close> followed by \<open>read_text(..., errors="ignore")\<close>:
  the empty string when there is no file, otherwise the stored characters with the
  line ends translated as reading in text mode does.
\<close>

definition read_existing :: "world \<Rightarrow> string" where
  "read_existing s =
     (case wpa_file s of None \<Rightarrow> [] | Some text \<Rightarrow> universal_newlines text)"

text \<open>\<open>WPA_SUPPLICANT_FILE.parent.mkdir(parents=True, exist_ok=True)\<close>.\<close>

definition mkdir_parents :: "env \<Rightarrow> unit action" where
  "mkdir_parents env s =
     (if mkdir_raises env (trace s) then (Inl OSError, s\<lparr>trace := trace s @ [Mkdir False]\<rparr>)
      else (Inr (), s\<lparr>trace := trace s @ [Mkdir True]\<rparr>))"

text \<open>
  The \<open>with open(WPA_SUPPLICANT_FILE, "a", ...)\<close> statement and the \<open>write\<close> in it.
  When the file cannot be opened nothing changes. Opening creates the file when it is
  missing. The data go after the characters already stored, which stay as they are;
  a write that fails leaves the part of the data that had reached the file.
\<close>

definition append_file :: "env \<Rightarrow> string \<Rightarrow> unit action" where
  "append_file env data s =
     (if open_raises env (trace s)
      then (Inl OSError, s\<lparr>trace := trace s @ [Open False]\<rparr>)
      else (let stored = (case wpa_file s of None \<Rightarrow> [] | Some text \<Rightarrow> text);
                opened = trace s @ [Open True]
            in case write_fails env opened of
                 None \<Rightarrow>
                   (Inr (), s\<lparr>wpa_file := Some (stored @ data),
                              trace := opened @ [Write data True]\<rparr>)
               | Some n \<Rightarrow>
                   (Inl OSError, s\<lparr>wpa_file := Some (stored @ take n data),
                                  trace := opened @ [Write (take n data) False]\<rparr>)))"

definition write_wifi_credentials :: "env \<Rightarrow> string \<Rightarrow> string \<Rightarrow> unit action" where
  "write_wifi_credentials env ssid password s =
     (let block = network_block ssid password;
          existing = read_existing s
      in if str_in (ssid_entry ssid) existing then (Inr (), s)
         else seq (mkdir_parents env) (\<lambda>_. append_file env block) s)"

section \<open>Connection establisher\<close>

definition connect_to_wifi :: "env \<Rightarrow> string \<Rightarrow> string \<Rightarrow> unit action" where
  "connect_to_wifi env ssid password =
     seq (run_command env [''nmcli'', ''connection'', ''delete'', ssid] False)
     (\<lambda>_. seq (\<lambda>s. run_command env
                 [''nmcli'', ''device'', ''wifi'', ''connect'', ssid, ''password'', password,
                  ''ifname'', WIFI_INTERFACE s] True s)
     (\<lambda>_ s. (Inr (), s)))"

section \<open>Shutdown sequencer\<close>

definition sleep :: "nat \<Rightarrow> world \<Rightarrow> world" where
  "sleep seconds s = s\<lparr>trace := trace s @ [Sleep seconds]\<rparr>"

definition os_exit :: "int \<Rightarrow> world \<Rightarrow> world" where
  "os_exit code s = s\<lparr>trace := trace s @ [Exit code]\<rparr>"

text \<open>
  The body \<open>_shutdown\<close> of the background thread, from the world it starts in to the
  world it leaves. An exception of \<open>stop_hotspot\<close> would end the thread before the exit.
\<close>

definition shutdown :: "env \<Rightarrow> world \<Rightarrow> world" where
  "shutdown env s =
     (case stop_hotspot env (sleep 2 s) of
        (Inl e, s') \<Rightarrow> s'
      | (Inr _, s') \<Rightarrow> os_exit 0 (sleep 1 s'))"

text \<open>\<open>threading.Thread(target=_shutdown, daemon=True).start()\<close>.\<close>

definition schedule_shutdown :: "world \<Rightarrow> world" where
  "schedule_shutdown s = s\<lparr>trace := trace s @ [ThreadStart]\<rparr>"

section \<open>Credential capture portal\<close>

definition html_escape :: "string \<Rightarrow> string" where
  "html_escape s =
     str_replace (CHR 0x27) ''&#x27;''
       (str_replace dquote ''&quot;''
         (str_replace (CHR ''>'') ''&gt;''
           (str_replace (CHR ''<'') ''&lt;''
             (str_replace (CHR ''&'') ''&amp;'' s))))"

text \<open>
  The page \<open>render_form\<close> returns is a fixed template with two holes: the colour of
  the message and the escaped message. The model keeps the content of the two holes.
\<close>

record page =
  color :: string
  safe_message :: string

definition render_form :: "string \<Rightarrow> bool \<Rightarrow> page" where
  "render_form message is_error =
     \<lparr>color = (if is_error then ''#b91c1c'' else ''#166534''),
      safe_message = html_escape message\<rparr>"

record request =
  req_method :: string
  form :: "string \<rightharpoonup> string"

text \<open>\<open>request.form.get(key) or ""\<close>.\<close>

definition form_get :: "request \<Rightarrow> string \<Rightarrow> string" where
  "form_get req key = (case form req key of None \<Rightarrow> [] | Some v \<Rightarrow> v)"

definition portal :: "env \<Rightarrow> request \<Rightarrow> world \<Rightarrow> page \<times> world" where
  "portal env req s =
     (if req_method req = ''POST'' then
        (let ssid = strip (form_get req ''ssid'');
             password = strip (form_get req ''password'')
         in if ssid = [] \<or> password = []
            then (render_form ''SSID and password are required.'' True, s)
            else (case seq (write_wifi_credentials env ssid password)
                         (\<lambda>_. connect_to_wifi env ssid password) s of
                    (Inr _, s') \<Rightarrow>
                      (render_form ''Wi-Fi connected successfully. Hotspot is shutting down.'' False,
                       schedule_shutdown s')
                  | (Inl exc, s') \<Rightarrow>
                      (render_form ''Connection failed. Please verify credentials and retry.'' True,
                       s')))
      else (render_form [] False, s))"

section \<open>Entry point\<close>

text \<open>
  \<open>main\<close>, with the outcome of \<open>parser.parse_args()\<close> as a parameter: the host and
  port, or \<open>None\<close> when the parser rejects the command line and exits with status 2.
  The call \<open>app.run\<close>, which binds the listener and serves requests, is the event
  \<open>AppRun\<close>; each request it serves is a call of \<open>portal\<close>.
\<close>

definition main :: "env \<Rightarrow> (string \<times> int) option \<Rightarrow> int action" where
  "main env args s =
     (if is_internet_connected env s then (Inr 0, s)
      else seq (detect_wifi_interface env)
        (\<lambda>iface s1.
           (let s2 = s1\<lparr>WIFI_INTERFACE := iface\<rparr>
            in if iface = [] then (Inr 1, s2)
               else seq (start_hotspot env)
                 (\<lambda>_ s3. case args of
                     None \<Rightarrow> (Inl (SystemExit 2), s3)
                   | Some (host, port) \<Rightarrow>
                       (Inr 0, s3\<lparr>trace := trace s3 @ [AppRun host port]\<rparr>)) s2)) s)"

section \<open>Notions used to state the properties\<close>

text \<open>
  The escaping as the specification words it: every backslash becomes two backslashes,
  every double quote becomes a backslash and a double quote, every other character
  stays. To be compared with \<open>escape_wpa\<close>, which is the source's two passes.
\<close>

definition escape_char :: "char \<Rightarrow> string" where
  "escape_char c = (if c = backslash then [backslash, backslash]
                    else if c = dquote then [backslash, dquote] else [c])"

definition escape_spec :: "string \<Rightarrow> string" where
  "escape_spec v = concat (map escape_char v)"

text \<open>
  A reader of a quoted string takes a backslash together with the character after it.
  \<open>unescaped_quote s\<close> holds when such a reader meets a double quote in \<open>s\<close> that no
  backslash protects, which would end the quoted string early.
\<close>

fun unescaped_quote :: "string \<Rightarrow> bool" where
  "unescaped_quote [] = False"
| "unescaped_quote [c] = (c = dquote)"
| "unescaped_quote (c # d # cs) =
     (if c = backslash then unescaped_quote cs
      else if c = dquote then True
      else unescaped_quote (d # cs))"

text \<open>The SSID entry is present in the text the presence check reads.\<close>

definition ssid_present :: "string \<Rightarrow> world \<Rightarrow> bool" where
  "ssid_present ssid s = str_in (ssid_entry ssid) (read_existing s)"

fun is_Exec :: "event \<Rightarrow> bool" where
  "is_Exec (Exec command check returncode) = True"
| "is_Exec e = False"

fun is_AppRun :: "event \<Rightarrow> bool" where
  "is_AppRun (AppRun host port) = True"
| "is_AppRun e = False"

text \<open>
  Concrete surroundings for the examples: a device on which every command exits with
  status 0 and prints nothing and every write succeeds; one on which only the join
  command fails; one on which a write fails when 10 characters have reached the file;
  one on which the access point cannot be created; a fresh device
  with no configuration file; and a device whose configuration file already holds two
  lines, the first ended by a carriage return and a line feed.
\<close>

definition env_ok :: env where
  "env_ok = \<lparr>subprocess = (\<lambda>t command. (0, [])), mkdir_raises = (\<lambda>t. False),
             open_raises = (\<lambda>t. False), write_fails = (\<lambda>t. None),
             online = (\<lambda>t. False)\<rparr>"

definition env_join_fails :: env where
  "env_join_fails = env_ok\<lparr>subprocess :=
     (\<lambda>t command. if take 4 command = [''nmcli'', ''device'', ''wifi'', ''connect'']
                   then (10, []) else (0, []))\<rparr>"

definition env_disk_full :: env where
  "env_disk_full = env_ok\<lparr>write_fails := (\<lambda>t. Some 10)\<rparr>"

definition env_no_ap :: env where
  "env_no_ap = env_ok\<lparr>subprocess :=
     (\<lambda>t command. if command = [''nmcli'', ''-t'', ''-f'', ''DEVICE,TYPE'', ''device'', ''status'']
                   then (0, ''lo:loopback'' @ [newline] @ ''wlan0:wifi'' @ [newline])
                   else if take 4 command = [''nmcli'', ''device'', ''wifi'', ''hotspot'']
                   then (1, []) else (0, []))\<rparr>"


definition world0 :: world where
  "world0 = \<lparr>wpa_file = None, WIFI_INTERFACE = ''wlan0'',
              HOTSPOT_CONNECTION_NAME = ''Hotspot'', trace = []\<rparr>"

definition post :: "string \<Rightarrow> string \<Rightarrow> request" where
  "post ssid password =
     \<lparr>req_method = ''POST'', form = [''ssid'' \<mapsto> ssid, ''password'' \<mapsto> password]\<rparr>"



text \<open>
  Three SSIDs that \<open>strip\<close> leaves as they are and a form can carry: \<open>a\<close>, a carriage
  return, \<open>b\<close>; the same with a line feed; the same with a NUL.
\<close>

definition ssid_cr :: string where "ssid_cr = [CHR ''a'', carriage_return, CHR ''b'']"
definition ssid_lf :: string where "ssid_lf = [CHR ''a'', newline, CHR ''b'']"
definition ssid_nul :: string where "ssid_nul = [CHR ''a'', nul, CHR ''b'']"

section \<open>Strings: basic facts\<close>

lemma str_in_sublist: "str_in needle hay = sublist needle hay"
  by (induction hay) (simp_all add: sublist_Cons_right)

lemma str_replace_append:
  "str_replace old new (xs @ ys) = str_replace old new xs @ str_replace old new ys"
  by (induction xs) simp_all

lemma escape_wpa_Nil: "escape_wpa [] = []"
  by (simp add: escape_wpa_def)

lemma escape_wpa_Cons: "escape_wpa (c # cs) = escape_char c @ escape_wpa cs"
  by (simp add: escape_wpa_def escape_char_def str_replace_append)

lemma escape_wpa_concat: "escape_wpa v = escape_spec v"
  by (induction v) (simp_all add: escape_spec_def escape_wpa_Nil escape_wpa_Cons)

lemma unescaped_quote_escape:
  "unescaped_quote (escape_wpa v @ rest) = unescaped_quote rest"
proof (induction v)
  case Nil
  then show ?case by (simp add: escape_wpa_Nil)
next
  case (Cons c v)
  then show ?case
    by (cases "escape_wpa v @ rest") (auto simp: escape_wpa_Cons escape_char_def)
qed

section \<open>Credential persistor: what a call does to the file\<close>

lemma ssid_entry_in_block: "str_in (ssid_entry ssid) (pre @ network_block ssid password)"
proof -
  have "pre @ network_block ssid password =
        (pre @ [newline] @ ''network={'' @ [newline] @ ''    '') @ ssid_entry ssid @
        ([newline] @ ''    psk='' @ [dquote] @ escape_wpa password @ [dquote, newline]
          @ ''    key_mgmt=WPA-PSK'' @ [newline] @ ''}'' @ [newline])"
    by (simp add: ssid_entry_def network_block_def)
  then show ?thesis
    unfolding str_in_sublist sublist_def by blast
qed

lemma write_present:
  "ssid_present ssid s \<Longrightarrow> write_wifi_credentials env ssid password s = (Inr (), s)"
  by (simp add: write_wifi_credentials_def ssid_present_def)

lemma write_absent:
  "\<not> ssid_present ssid s \<Longrightarrow>
   write_wifi_credentials env ssid password s =
     (if mkdir_raises env (trace s) then (Inl OSError, s\<lparr>trace := trace s @ [Mkdir False]\<rparr>)
      else if open_raises env (trace s @ [Mkdir True])
      then (Inl OSError, s\<lparr>trace := trace s @ [Mkdir True, Open False]\<rparr>)
      else (case write_fails env (trace s @ [Mkdir True, Open True]) of
              None \<Rightarrow>
                (Inr (),
                 s\<lparr>wpa_file := Some ((case wpa_file s of None \<Rightarrow> [] | Some old \<Rightarrow> old)
                                      @ network_block ssid password),
                   trace := trace s @ [Mkdir True, Open True,
                                       Write (network_block ssid password) True]\<rparr>)
            | Some n \<Rightarrow>
                (Inl OSError,
                 s\<lparr>wpa_file := Some ((case wpa_file s of None \<Rightarrow> [] | Some old \<Rightarrow> old)
                                      @ take n (network_block ssid password)),
                   trace := trace s @ [Mkdir True, Open True,
                                       Write (take n (network_block ssid password)) False]\<rparr>)))"
  by (simp add: write_wifi_credentials_def ssid_present_def seq_def mkdir_parents_def
      append_file_def Let_def split: option.split)

lemma write_success_file:
  assumes "write_wifi_credentials env ssid password s = (Inr (), s1)"
  shows "wpa_file s1 =
           (if ssid_present ssid s then wpa_file s
            else Some ((case wpa_file s of None \<Rightarrow> [] | Some old \<Rightarrow> old)
                       @ network_block ssid password))"
proof (cases "ssid_present ssid s")
  case True
  with assms show ?thesis by (simp add: write_present)
next
  case False
  with assms show ?thesis
    by (auto simp: write_absent split: if_splits option.splits)
qed

lemma write_no_Exec:
  "filter is_Exec (trace (snd (write_wifi_credentials env ssid password s)))
     = filter is_Exec (trace s)"
proof (cases "ssid_present ssid s")
  case True
  then show ?thesis by (simp add: write_present)
next
  case False
  then show ?thesis by (simp add: write_absent split: option.split)
qed

lemma absent_world0: "\<not> ssid_present ssid world0"
  by (simp add: ssid_present_def world0_def read_existing_def ssid_entry_def)

section \<open>External commands: what each function runs\<close>

lemma run_command_eq:
  "run_command env command check s =
     (if embedded_nul command then (Inl ValueError, s)
      else (if check \<and> fst (subprocess env (trace s) command) \<noteq> 0
            then Inl (CalledProcessError (fst (subprocess env (trace s) command)) command)
            else Inr (subprocess env (trace s) command),
            s\<lparr>trace := trace s @
                 [Exec command check (fst (subprocess env (trace s) command))]\<rparr>))"
  by (auto simp: run_command_def Let_def split: prod.split)

lemma stop_hotspot_eq:
  "stop_hotspot env w =
     (if HOTSPOT_CONNECTION_NAME w = [] then (Inr (), w)
      else if nul \<in> set (HOTSPOT_CONNECTION_NAME w) then (Inl ValueError, w)
      else (Inr (), w\<lparr>trace := trace w @
              [Exec [''nmcli'', ''connection'', ''down'', HOTSPOT_CONNECTION_NAME w] False
                 (fst (subprocess env (trace w)
                    [''nmcli'', ''connection'', ''down'', HOTSPOT_CONNECTION_NAME w]))]\<rparr>))"
  by (simp add: stop_hotspot_def seq_def run_command_eq embedded_nul_def)

lemma shutdown_eq:
  "shutdown env w =
     (if nul \<in> set (HOTSPOT_CONNECTION_NAME w) then w\<lparr>trace := trace w @ [Sleep 2]\<rparr>
      else w\<lparr>trace := trace w @ [Sleep 2]
             @ (if HOTSPOT_CONNECTION_NAME w = [] then []
                else [Exec [''nmcli'', ''connection'', ''down'', HOTSPOT_CONNECTION_NAME w] False
                       (fst (subprocess env (trace w @ [Sleep 2])
                          [''nmcli'', ''connection'', ''down'', HOTSPOT_CONNECTION_NAME w]))])
             @ [Sleep 1, Exit 0]\<rparr>)"
  by (auto simp: shutdown_def stop_hotspot_eq sleep_def os_exit_def)

lemma get_active_eq:
  "get_active_connection_for_device env device s =
     (let query = [''nmcli'', ''-t'', ''-f'', ''NAME,DEVICE'', ''connection'', ''show'', ''--active''];
          r = subprocess env (trace s) query
      in (if fst r \<noteq> 0 then Inl (CalledProcessError (fst r) query)
          else Inr (first_connection_on device (splitlines (snd r))),
          s\<lparr>trace := trace s @ [Exec query True (fst r)]\<rparr>))"
  by (simp add: get_active_connection_for_device_def seq_def run_command_eq embedded_nul_def
      Let_def split: prod.split)

lemma detect_eq:
  "detect_wifi_interface env s =
     (let query = [''nmcli'', ''-t'', ''-f'', ''DEVICE,TYPE'', ''device'', ''status''];
          r = subprocess env (trace s) query
      in (if fst r \<noteq> 0 then Inl (CalledProcessError (fst r) query)
          else Inr (first_wifi_device (splitlines (snd r))),
          s\<lparr>trace := trace s @ [Exec query True (fst r)]\<rparr>))"
  by (simp add: detect_wifi_interface_def seq_def run_command_eq embedded_nul_def
      Let_def split: prod.split)

lemma start_hotspot_eq:
  "start_hotspot env s =
     (if nul \<in> set (WIFI_INTERFACE s) then (Inl ValueError, s)
      else
       (let c1 = [''nmcli'', ''device'', ''set'', WIFI_INTERFACE s, ''managed'', ''yes''];
            c2 = [''nmcli'', ''device'', ''wifi'', ''hotspot'', ''ifname'', WIFI_INTERFACE s,
                  ''ssid'', HOTSPOT_SSID, ''password'', HOTSPOT_PASSWORD];
            rc1 = fst (subprocess env (trace s) c1);
            t1 = trace s @ [Exec c1 False rc1];
            rc2 = fst (subprocess env t1 c2);
            s2 = s\<lparr>trace := t1 @ [Exec c2 True rc2]\<rparr>
        in if rc2 \<noteq> 0 then (Inl (CalledProcessError rc2 c2), s2)
           else (case get_active_connection_for_device env (WIFI_INTERFACE s) s2 of
                   (Inl e, s3) \<Rightarrow> (Inl e, s3)
                 | (Inr name, s3) \<Rightarrow>
                     (Inr (), s3\<lparr>HOTSPOT_CONNECTION_NAME :=
                                     (if name \<noteq> [] then name else ''Hotspot'')\<rparr>))))"
  by (simp add: start_hotspot_def seq_def run_command_eq embedded_nul_def Let_def
      HOTSPOT_SSID_def HOTSPOT_PASSWORD_def)

lemma start_hotspot_no_AppRun:
  "filter is_AppRun (trace (snd (start_hotspot env s))) = filter is_AppRun (trace s)"
  by (auto simp: start_hotspot_eq get_active_eq Let_def)

lemma detect_no_AppRun:
  "filter is_AppRun (trace (snd (detect_wifi_interface env s))) = filter is_AppRun (trace s)"
  by (auto simp: detect_eq Let_def)

lemma connect_to_wifi_eq:
  "connect_to_wifi env ssid password s =
     (let delete = [''nmcli'', ''connection'', ''delete'', ssid];
          connect = [''nmcli'', ''device'', ''wifi'', ''connect'', ssid, ''password'', password,
                     ''ifname'', WIFI_INTERFACE s];
          rc1 = fst (subprocess env (trace s) delete);
          t1 = trace s @ [Exec delete False rc1];
          rc2 = fst (subprocess env t1 connect)
      in if nul \<in> set ssid then (Inl ValueError, s)
         else if nul \<in> set password \<or> nul \<in> set (WIFI_INTERFACE s)
         then (Inl ValueError, s\<lparr>trace := t1\<rparr>)
         else (if rc2 \<noteq> 0 then Inl (CalledProcessError rc2 connect) else Inr (),
               s\<lparr>trace := t1 @ [Exec connect True rc2]\<rparr>))"
  by (simp add: connect_to_wifi_def seq_def run_command_eq embedded_nul_def Let_def)

lemma connect_keeps_file: "wpa_file (snd (connect_to_wifi env ssid password s)) = wpa_file s"
  by (simp add: connect_to_wifi_eq Let_def)

lemma connect_only_Exec:
  "\<exists>cmds. trace (snd (connect_to_wifi env ssid password s)) = trace s @ cmds
          \<and> list_all is_Exec cmds"
proof -
  have "trace (snd (connect_to_wifi env ssid password s)) = trace s @ []
        \<or> (\<exists>e1. trace (snd (connect_to_wifi env ssid password s)) = trace s @ [e1] \<and> is_Exec e1)
        \<or> (\<exists>e1 e2. trace (snd (connect_to_wifi env ssid password s)) = trace s @ [e1, e2]
                   \<and> is_Exec e1 \<and> is_Exec e2)"
    by (simp add: connect_to_wifi_eq Let_def)
  then show ?thesis
    by (elim disjE exE conjE) (rule exI, rule conjI, assumption, simp)+
qed

section \<open>Characters of a split line\<close>






section \<open>Portal: submissions that fail validation\<close>

text \<open>
  C2. A POST whose SSID or password is empty once trimmed gets the form back with the
  message that both are required, in the error colour, and the world is returned as it
  was: the configuration file is unchanged, the trace has no new event (no directory
  creation, no append, no command, no thread).
\<close>

theorem portal_validation_error:
  assumes "req_method req = ''POST''"
    and "strip (form_get req ''ssid'') = [] \<or> strip (form_get req ''password'') = []"
  shows "portal env req s = (render_form ''SSID and password are required.'' True, s)
         \<and> render_form ''SSID and password are required.'' True
             = \<lparr>color = ''#b91c1c'', safe_message = ''SSID and password are required.''\<rparr>"
proof
  from assms show "portal env req s = (render_form ''SSID and password are required.'' True, s)"
    by (auto simp: portal_def Let_def)
  show "render_form ''SSID and password are required.'' True
          = \<lparr>color = ''#b91c1c'', safe_message = ''SSID and password are required.''\<rparr>"
    by (simp add: render_form_def html_escape_def)
qed

theorem portal_validation_error_witness:
  "req_method (post ''   '' ''hunter2'') = ''POST''
   \<and> strip (form_get (post ''   '' ''hunter2'') ''ssid'') = []
   \<and> portal env_ok (post ''   '' ''hunter2'') world0
       = (render_form ''SSID and password are required.'' True, world0)"
proof -
  have m: "req_method (post ''   '' ''hunter2'') = ''POST''"
    by (simp add: post_def)
  have e: "strip (form_get (post ''   '' ''hunter2'') ''ssid'') = []"
    by (simp add: post_def form_get_def strip_def isspace_def)
  from portal_validation_error[OF m disjI1[OF e], of env_ok world0] m e
  show ?thesis by blast
qed

section \<open>Credential persistor: a new SSID\<close>




section \<open>Escaping\<close>

text \<open>
  C5. \<open>escape_wpa\<close> (two passes of \<open>replace\<close>) is the escaping of the specification:
  each backslash doubled, each double quote preceded by a backslash, everything else
  kept. Its result holds no unprotected double quote. The SSID and the password are
  embedded in the network block in this escaped form; the password \<open>pa"ss\<close> escapes
  to \<open>pa\"ss\<close> and is written so to the file of a fresh device.
\<close>

theorem escape_wpa_escapes:
  "escape_wpa v = escape_spec v
   \<and> \<not> unescaped_quote (escape_wpa v)
   \<and> escape_wpa (''pa'' @ [dquote] @ ''ss'') = ''pa'' @ [backslash, dquote] @ ''ss''
   \<and> network_block ssid password =
        [newline] @ ''network={'' @ [newline]
        @ ''    ssid='' @ [dquote] @ escape_wpa ssid @ [dquote, newline]
        @ ''    psk='' @ [dquote] @ escape_wpa password @ [dquote, newline]
        @ ''    key_mgmt=WPA-PSK'' @ [newline]
        @ ''}'' @ [newline]
   \<and> wpa_file (snd (write_wifi_credentials env_ok ''HomeNet'' (''pa'' @ [dquote] @ ''ss'') world0)) =
        Some ([newline] @ ''network={'' @ [newline]
        @ ''    ssid='' @ [dquote] @ ''HomeNet'' @ [dquote, newline]
        @ ''    psk='' @ [dquote] @ ''pa'' @ [backslash, dquote] @ ''ss'' @ [dquote, newline]
        @ ''    key_mgmt=WPA-PSK'' @ [newline]
        @ ''}'' @ [newline])"
proof (intro conjI)
  show "escape_wpa v = escape_spec v"
    by (rule escape_wpa_concat)
  show "\<not> unescaped_quote (escape_wpa v)"
    using unescaped_quote_escape[of v "[]"] by simp
  show "escape_wpa (''pa'' @ [dquote] @ ''ss'') = ''pa'' @ [backslash, dquote] @ ''ss''"
    by (simp add: escape_wpa_def)
  show "network_block ssid password =
        [newline] @ ''network={'' @ [newline]
        @ ''    ssid='' @ [dquote] @ escape_wpa ssid @ [dquote, newline]
        @ ''    psk='' @ [dquote] @ escape_wpa password @ [dquote, newline]
        @ ''    key_mgmt=WPA-PSK'' @ [newline]
        @ ''}'' @ [newline]"
    by (simp add: network_block_def)
  have "write_wifi_credentials env_ok ''HomeNet'' (''pa'' @ [dquote] @ ''ss'') world0 =
     (Inr (), world0\<lparr>wpa_file := Some (network_block ''HomeNet'' (''pa'' @ [dquote] @ ''ss'')),
        trace := [Mkdir True, Open True,
                  Write (network_block ''HomeNet'' (''pa'' @ [dquote] @ ''ss'')) True]\<rparr>)"
    using write_absent[OF absent_world0, of env_ok "''HomeNet''" "''pa'' @ [dquote] @ ''ss''"]
    by (simp add: env_ok_def world0_def)
  then show "wpa_file (snd (write_wifi_credentials env_ok ''HomeNet'' (''pa'' @ [dquote] @ ''ss'') world0)) =
        Some ([newline] @ ''network={'' @ [newline]
        @ ''    ssid='' @ [dquote] @ ''HomeNet'' @ [dquote, newline]
        @ ''    psk='' @ [dquote] @ ''pa'' @ [backslash, dquote] @ ''ss'' @ [dquote, newline]
        @ ''    key_mgmt=WPA-PSK'' @ [newline]
        @ ''}'' @ [newline])"
    by (simp add: network_block_def escape_wpa_def)
qed

section \<open>Line ends: what is written is not what is read back\<close>

text \<open>
  The block is written with the carriage return of the SSID as it is; the presence
  check reads the file in text mode, where that carriage return has become a line
  feed. The two lemmas give the file after \<open>("a\rb", "pw")\<close> has been persisted on a
  fresh device, and what the presence check finds in it.
\<close>

lemma strip_ssids:
  "strip ssid_cr = ssid_cr" "strip ssid_lf = ssid_lf" "strip ssid_nul = ssid_nul"
  by (simp_all add: strip_def isspace_def ssid_cr_def ssid_lf_def ssid_nul_def)

lemma write_cr_world0:
  "write_wifi_credentials env_ok ssid_cr ''pw'' world0 =
     (Inr (), world0\<lparr>wpa_file := Some (network_block ssid_cr ''pw''),
        trace := [Mkdir True, Open True, Write (network_block ssid_cr ''pw'') True]\<rparr>)"
  using write_absent[OF absent_world0, of env_ok ssid_cr "''pw''"]
  by (simp add: env_ok_def world0_def)

lemma read_back_cr:
  "universal_newlines (network_block ssid_cr ''pw'') = network_block ssid_lf ''pw''"
  by (simp add: network_block_def escape_wpa_def ssid_cr_def ssid_lf_def)

lemma cr_not_found: "\<not> str_in (ssid_entry ssid_cr) (network_block ssid_lf ''pw'')"
  by (simp add: network_block_def ssid_entry_def escape_wpa_def ssid_cr_def ssid_lf_def)

text \<open>
  C1, at the SSID \<open>a\rb\<close> (a form field \<open>a%0Db\<close>, which \<open>strip\<close> leaves as it is).
  The first call on a fresh device writes one block. The presence check of the second
  call does not find the entry, because the text it reads has a line feed where the
  entry has a carriage return: the second call returns without error too, and the file
  then holds the block twice.
\<close>

theorem persist_twice_carriage_return:
  "strip ssid_cr = ssid_cr
   \<and> fst (write_wifi_credentials env_ok ssid_cr ''pw'' world0) = Inr ()
   \<and> wpa_file (snd (write_wifi_credentials env_ok ssid_cr ''pw'' world0))
       = Some (network_block ssid_cr ''pw'')
   \<and> \<not> ssid_present ssid_cr (snd (write_wifi_credentials env_ok ssid_cr ''pw'' world0))
   \<and> fst (write_wifi_credentials env_ok ssid_cr ''pw''
            (snd (write_wifi_credentials env_ok ssid_cr ''pw'' world0))) = Inr ()
   \<and> wpa_file (snd (write_wifi_credentials env_ok ssid_cr ''pw''
                     (snd (write_wifi_credentials env_ok ssid_cr ''pw'' world0))))
       = Some (network_block ssid_cr ''pw'' @ network_block ssid_cr ''pw'')"
proof -
  let ?w1 = "world0\<lparr>wpa_file := Some (network_block ssid_cr ''pw''),
        trace := [Mkdir True, Open True, Write (network_block ssid_cr ''pw'') True]\<rparr>"
  have absent: "\<not> ssid_present ssid_cr ?w1"
    using cr_not_found by (simp add: ssid_present_def read_existing_def read_back_cr)
  have second: "write_wifi_credentials env_ok ssid_cr ''pw'' ?w1 =
     (Inr (), ?w1\<lparr>wpa_file := Some (network_block ssid_cr ''pw'' @ network_block ssid_cr ''pw''),
        trace := trace ?w1 @ [Mkdir True, Open True, Write (network_block ssid_cr ''pw'') True]\<rparr>)"
    using write_absent[OF absent, of env_ok "''pw''"]
    by (simp add: env_ok_def)
  show ?thesis
    using absent
    by (simp add: write_cr_world0 second strip_ssids del: fst_conv snd_conv)
       (simp add: second)
qed

text \<open>The functions at the concrete devices of the examples.\<close>

lemma lines_no_ap:
  "splitlines (''lo:loopback'' @ [newline] @ ''wlan0:wifi'' @ [newline]) = [''lo:loopback'', ''wlan0:wifi'']"
  by (simp add: splitlines_def is_linebreak_def)

lemma first_no_ap: "first_wifi_device [''lo:loopback'', ''wlan0:wifi''] = ''wlan0''"
  by (simp add: str_split_def)

lemma detect_no_ap:
  "detect_wifi_interface env_no_ap world0 =
    (Inr ''wlan0'', world0\<lparr>trace := [Exec [''nmcli'', ''-t'', ''-f'', ''DEVICE,TYPE'', ''device'', ''status''] True 0]\<rparr>)"
  using lines_no_ap first_no_ap
  by (simp add: detect_eq Let_def env_no_ap_def env_ok_def world0_def)

lemma start_no_ap:
  "fst (start_hotspot env_no_ap (w\<lparr>WIFI_INTERFACE := ''wlan0''\<rparr>)) =
     Inl (CalledProcessError 1 [''nmcli'', ''device'', ''wifi'', ''hotspot'', ''ifname'', ''wlan0'',
                ''ssid'', ''SmartLock-Setup'', ''password'', ''electroniccliks''])"
  by (simp add: start_hotspot_eq Let_def env_no_ap_def env_ok_def HOTSPOT_SSID_def HOTSPOT_PASSWORD_def)





section \<open>Hotspot controller\<close>

text \<open>
  C7. When the device is offline, a wireless interface is found and \<open>start_hotspot\<close>
  raises, \<open>main\<close> ends with that exception, and the trace has no \<open>AppRun\<close> event that
  it did not have before: \<open>app.run\<close> is never called, so no listener is bound.
\<close>

theorem hotspot_start_failure_fatal:
  assumes "\<not> is_internet_connected env s"
    and "detect_wifi_interface env s = (Inr iface, s1)"
    and "iface \<noteq> []"
    and "start_hotspot env (s1\<lparr>WIFI_INTERFACE := iface\<rparr>) = (Inl e, s3)"
  shows "main env args s = (Inl e, s3)
         \<and> filter is_AppRun (trace s3) = filter is_AppRun (trace s)"
proof
  from assms show "main env args s = (Inl e, s3)"
    by (simp add: main_def seq_def Let_def)
  have "filter is_AppRun (trace s3)
          = filter is_AppRun (trace (snd (start_hotspot env (s1\<lparr>WIFI_INTERFACE := iface\<rparr>))))"
    using assms(4) by simp
  also have "\<dots> = filter is_AppRun (trace s1)"
    by (simp add: start_hotspot_no_AppRun)
  also have "\<dots> = filter is_AppRun (trace (snd (detect_wifi_interface env s)))"
    using assms(2) by simp
  also have "\<dots> = filter is_AppRun (trace s)"
    by (rule detect_no_AppRun)
  finally show "filter is_AppRun (trace s3) = filter is_AppRun (trace s)" .
qed

theorem hotspot_start_failure_fatal_witness:
  "\<not> is_internet_connected env_no_ap world0
   \<and> fst (detect_wifi_interface env_no_ap world0) = Inr ''wlan0''
   \<and> fst (start_hotspot env_no_ap
             ((snd (detect_wifi_interface env_no_ap world0))\<lparr>WIFI_INTERFACE := ''wlan0''\<rparr>))
       = Inl (CalledProcessError 1
               [''nmcli'', ''device'', ''wifi'', ''hotspot'', ''ifname'', ''wlan0'',
                ''ssid'', ''SmartLock-Setup'', ''password'', ''electroniccliks''])
   \<and> fst (main env_no_ap (Some (''0.0.0.0'', 80)) world0)
       = Inl (CalledProcessError 1
               [''nmcli'', ''device'', ''wifi'', ''hotspot'', ''ifname'', ''wlan0'',
                ''ssid'', ''SmartLock-Setup'', ''password'', ''electroniccliks''])
   \<and> filter is_AppRun (trace (snd (main env_no_ap (Some (''0.0.0.0'', 80)) world0))) = []"
proof -
  let ?c2 = "[''nmcli'', ''device'', ''wifi'', ''hotspot'', ''ifname'', ''wlan0'',
                ''ssid'', ''SmartLock-Setup'', ''password'', ''electroniccliks'']"
  let ?s1 = "snd (detect_wifi_interface env_no_ap world0)"
  let ?s3 = "snd (start_hotspot env_no_ap (?s1\<lparr>WIFI_INTERFACE := ''wlan0''\<rparr>))"
  have h1: "\<not> is_internet_connected env_no_ap world0"
    by (simp add: is_internet_connected_def env_no_ap_def env_ok_def)
  have f2: "fst (detect_wifi_interface env_no_ap world0) = Inr ''wlan0''"
    by (simp add: detect_no_ap)
  then have h2: "detect_wifi_interface env_no_ap world0 = (Inr ''wlan0'', ?s1)"
    by (simp add: prod_eq_iff)
  have h3: "''wlan0'' \<noteq> []" by simp
  have f4: "fst (start_hotspot env_no_ap (?s1\<lparr>WIFI_INTERFACE := ''wlan0''\<rparr>))
              = Inl (CalledProcessError 1 ?c2)"
    by (rule start_no_ap)
  then have h4: "start_hotspot env_no_ap (?s1\<lparr>WIFI_INTERFACE := ''wlan0''\<rparr>)
              = (Inl (CalledProcessError 1 ?c2), ?s3)"
    by (simp add: prod_eq_iff)
  note m = hotspot_start_failure_fatal[OF h1 h2 h3 h4, of "Some (''0.0.0.0'', 80)"]
  from m have m1: "fst (main env_no_ap (Some (''0.0.0.0'', 80)) world0) = Inl (CalledProcessError 1 ?c2)"
    by simp
  from m have "filter is_AppRun (trace (snd (main env_no_ap (Some (''0.0.0.0'', 80)) world0)))
                 = filter is_AppRun (trace world0)"
    by simp
  then have m2: "filter is_AppRun (trace (snd (main env_no_ap (Some (''0.0.0.0'', 80)) world0))) = []"
    by (simp add: world0_def)
  show ?thesis
    by (intro conjI h1 f2 f4 m1 m2)
qed



section \<open>Connection establisher\<close>



section \<open>Portal: valid submissions\<close>

lemma portal_valid:
  assumes "req_method req = ''POST''"
    and "strip (form_get req ''ssid'') \<noteq> []" and "strip (form_get req ''password'') \<noteq> []"
  shows "portal env req s =
     (case seq (write_wifi_credentials env (strip (form_get req ''ssid''))
                                           (strip (form_get req ''password'')))
               (\<lambda>_. connect_to_wifi env (strip (form_get req ''ssid''))
                                          (strip (form_get req ''password''))) s of
        (Inr _, s') \<Rightarrow>
          (render_form ''Wi-Fi connected successfully. Hotspot is shutting down.'' False,
           schedule_shutdown s')
      | (Inl exc, s') \<Rightarrow>
          (render_form ''Connection failed. Please verify credentials and retry.'' True, s'))"
  using assms by (simp add: portal_def Let_def)

lemma render_failure:
  "render_form ''Connection failed. Please verify credentials and retry.'' True
     = \<lparr>color = ''#b91c1c'',
        safe_message = ''Connection failed. Please verify credentials and retry.''\<rparr>"
  by (simp add: render_form_def html_escape_def)

lemma render_success:
  "render_form ''Wi-Fi connected successfully. Hotspot is shutting down.'' False
     = \<lparr>color = ''#166534'',
        safe_message = ''Wi-Fi connected successfully. Hotspot is shutting down.''\<rparr>"
  by (simp add: render_form_def html_escape_def)

lemma post_fields:
  "req_method (post ''HomeWiFi'' ''hunter2'') = ''POST''"
  "strip (form_get (post ''HomeWiFi'' ''hunter2'') ''ssid'') = ''HomeWiFi''"
  "strip (form_get (post ''HomeWiFi'' ''hunter2'') ''password'') = ''hunter2''"
  by (simp_all add: post_def form_get_def strip_def isspace_def)

lemma write_HomeWiFi:
  "\<not> mkdir_raises env [] \<Longrightarrow> \<not> open_raises env [Mkdir True] \<Longrightarrow>
   write_fails env [Mkdir True, Open True] = None \<Longrightarrow>
   write_wifi_credentials env ''HomeWiFi'' ''hunter2'' world0 =
     (Inr (), world0\<lparr>wpa_file := Some (network_block ''HomeWiFi'' ''hunter2''),
        trace := [Mkdir True, Open True, Write (network_block ''HomeWiFi'' ''hunter2'') True]\<rparr>)"
  using write_absent[OF absent_world0, of env "''HomeWiFi''" "''hunter2''"]
  by (simp add: world0_def)

text \<open>
  C3. For a POST whose trimmed SSID and password are both non-empty, the portal calls
  \<open>write_wifi_credentials\<close> first and \<open>connect_to_wifi\<close> on the world that call
  leaves. \<open>write_wifi_credentials\<close> starts no command. If it raises, the failure page
  is returned in the world the failed call left: no command was started, the join
  command least of all. If it returns, the file holds what it held before when the
  entry was found, and otherwise what it held before followed by the network block;
  every event \<open>connect_to_wifi\<close> then adds is a command, after everything the first
  call did; and if \<open>connect_to_wifi\<close> raises, the failure page is returned and the file
  is exactly what the first call left. The failure page carries the same generic
  message in both cases.
\<close>

theorem portal_persist_then_connect:
  assumes "req_method req = ''POST''"
    and "ssid = strip (form_get req ''ssid'')"
    and "password = strip (form_get req ''password'')"
    and "ssid \<noteq> []" and "password \<noteq> []"
  shows "(case write_wifi_credentials env ssid password s of
            (Inl e, s1) \<Rightarrow>
              portal env req s =
                (render_form ''Connection failed. Please verify credentials and retry.'' True, s1)
              \<and> filter is_Exec (trace s1) = filter is_Exec (trace s)
          | (Inr u, s1) \<Rightarrow>
              (case connect_to_wifi env ssid password s1 of
                 (Inl e, s2) \<Rightarrow>
                   portal env req s =
                     (render_form ''Connection failed. Please verify credentials and retry.'' True, s2)
                   \<and> wpa_file s2 = wpa_file s1
               | (Inr u', s2) \<Rightarrow>
                   portal env req s =
                     (render_form ''Wi-Fi connected successfully. Hotspot is shutting down.'' False,
                      schedule_shutdown s2))
              \<and> filter is_Exec (trace s1) = filter is_Exec (trace s)
              \<and> wpa_file s1 =
                  (if ssid_present ssid s then wpa_file s
                   else Some ((case wpa_file s of None \<Rightarrow> [] | Some old \<Rightarrow> old)
                              @ network_block ssid password))
              \<and> (\<exists>cmds. trace (snd (connect_to_wifi env ssid password s1)) = trace s1 @ cmds
                         \<and> list_all is_Exec cmds))
         \<and> render_form ''Connection failed. Please verify credentials and retry.'' True
             = \<lparr>color = ''#b91c1c'',
                safe_message = ''Connection failed. Please verify credentials and retry.''\<rparr>"
proof (intro conjI render_failure)
  obtain r1 s1 where w: "write_wifi_credentials env ssid password s = (r1, s1)"
    by (cases "write_wifi_credentials env ssid password s")
  note p = portal_valid[OF assms(1) assms(4)[unfolded assms(2)] assms(5)[unfolded assms(3)],
      of env s, folded assms(2) assms(3)]
  from w have noexec: "filter is_Exec (trace s1) = filter is_Exec (trace s)"
    using write_no_Exec[of env ssid password s] by simp
  show "case write_wifi_credentials env ssid password s of
            (Inl e, s1) \<Rightarrow>
              portal env req s =
                (render_form ''Connection failed. Please verify credentials and retry.'' True, s1)
              \<and> filter is_Exec (trace s1) = filter is_Exec (trace s)
          | (Inr u, s1) \<Rightarrow>
              (case connect_to_wifi env ssid password s1 of
                 (Inl e, s2) \<Rightarrow>
                   portal env req s =
                     (render_form ''Connection failed. Please verify credentials and retry.'' True, s2)
                   \<and> wpa_file s2 = wpa_file s1
               | (Inr u', s2) \<Rightarrow>
                   portal env req s =
                     (render_form ''Wi-Fi connected successfully. Hotspot is shutting down.'' False,
                      schedule_shutdown s2))
              \<and> filter is_Exec (trace s1) = filter is_Exec (trace s)
              \<and> wpa_file s1 =
                  (if ssid_present ssid s then wpa_file s
                   else Some ((case wpa_file s of None \<Rightarrow> [] | Some old \<Rightarrow> old)
                              @ network_block ssid password))
              \<and> (\<exists>cmds. trace (snd (connect_to_wifi env ssid password s1)) = trace s1 @ cmds
                         \<and> list_all is_Exec cmds)"
  proof (cases r1)
    case (Inl e)
    with w have "portal env req s =
        (render_form ''Connection failed. Please verify credentials and retry.'' True, s1)"
      by (simp add: p seq_def)
    with noexec show ?thesis using w Inl by simp
  next
    case (Inr u)
    obtain r2 s2 where c: "connect_to_wifi env ssid password s1 = (r2, s2)"
      by (cases "connect_to_wifi env ssid password s1")
    from w Inr have stored: "wpa_file s1 =
                  (if ssid_present ssid s then wpa_file s
                   else Some ((case wpa_file s of None \<Rightarrow> [] | Some old \<Rightarrow> old)
                              @ network_block ssid password))"
      by (simp add: write_success_file)
    from c have keep: "wpa_file s2 = wpa_file s1"
      using connect_keeps_file[of env ssid password s1] by simp
    have "case r2 of
            Inl e \<Rightarrow> portal env req s =
                     (render_form ''Connection failed. Please verify credentials and retry.'' True, s2)
                   \<and> wpa_file s2 = wpa_file s1
          | Inr u' \<Rightarrow> portal env req s =
                     (render_form ''Wi-Fi connected successfully. Hotspot is shutting down.'' False,
                      schedule_shutdown s2)"
      using w Inr c keep by (cases r2) (simp_all add: p seq_def)
    then show ?thesis
      using w Inr c noexec stored connect_only_Exec[of env ssid password s1] by simp
  qed
qed

lemma post_nul_fields:
  "req_method (post ssid_nul ''hunter2'') = ''POST''"
  "strip (form_get (post ssid_nul ''hunter2'') ''ssid'') = ssid_nul"
  "strip (form_get (post ssid_nul ''hunter2'') ''password'') = ''hunter2''"
  by (simp_all add: post_def form_get_def strip_ssids) (simp add: strip_def isspace_def)

lemma write_nul_world0:
  "write_wifi_credentials env_ok ssid_nul ''hunter2'' world0 =
     (Inr (), world0\<lparr>wpa_file := Some (network_block ssid_nul ''hunter2''),
        trace := [Mkdir True, Open True, Write (network_block ssid_nul ''hunter2'') True]\<rparr>)"
  using write_absent[OF absent_world0, of env_ok ssid_nul "''hunter2''"]
  by (simp add: env_ok_def world0_def)

text \<open>
  Three submissions on a fresh device. \<open>("HomeWiFi", "hunter2")\<close> where the join
  command exits with status 10: the failure page, and the file holds the block. The
  same where the write fails after 10 characters: the failure page, no command in the
  trace, and the file holds the 10 characters that were written. An SSID with a
  NUL where every command would succeed: the block is written, \<open>connect_to_wifi\<close>
  raises before any command, the failure page is returned and the file holds the block.
\<close>

theorem portal_persist_then_connect_witness:
  "req_method (post ''HomeWiFi'' ''hunter2'') = ''POST''
   \<and> ''HomeWiFi'' = strip (form_get (post ''HomeWiFi'' ''hunter2'') ''ssid'')
   \<and> ''hunter2'' = strip (form_get (post ''HomeWiFi'' ''hunter2'') ''password'')
   \<and> ''HomeWiFi'' \<noteq> [] \<and> ''hunter2'' \<noteq> []
   \<and> fst (write_wifi_credentials env_join_fails ''HomeWiFi'' ''hunter2'' world0) = Inr ()
   \<and> fst (connect_to_wifi env_join_fails ''HomeWiFi'' ''hunter2''
             (snd (write_wifi_credentials env_join_fails ''HomeWiFi'' ''hunter2'' world0)))
       = Inl (CalledProcessError 10
               [''nmcli'', ''device'', ''wifi'', ''connect'', ''HomeWiFi'', ''password'',
                ''hunter2'', ''ifname'', ''wlan0''])
   \<and> fst (portal env_join_fails (post ''HomeWiFi'' ''hunter2'') world0)
       = render_form ''Connection failed. Please verify credentials and retry.'' True
   \<and> wpa_file (snd (portal env_join_fails (post ''HomeWiFi'' ''hunter2'') world0))
       = Some (network_block ''HomeWiFi'' ''hunter2'')
   \<and> fst (write_wifi_credentials env_disk_full ''HomeWiFi'' ''hunter2'' world0) = Inl OSError
   \<and> portal env_disk_full (post ''HomeWiFi'' ''hunter2'') world0
       = (render_form ''Connection failed. Please verify credentials and retry.'' True,
          world0\<lparr>wpa_file := Some (newline # ''network={''),
            trace := [Mkdir True, Open True, Write (newline # ''network={'') False]\<rparr>)
   \<and> ssid_nul = strip (form_get (post ssid_nul ''hunter2'') ''ssid'')
   \<and> ssid_nul \<noteq> []
   \<and> portal env_ok (post ssid_nul ''hunter2'') world0
       = (render_form ''Connection failed. Please verify credentials and retry.'' True,
          world0\<lparr>wpa_file := Some (network_block ssid_nul ''hunter2''),
            trace := [Mkdir True, Open True, Write (network_block ssid_nul ''hunter2'') True]\<rparr>)"
proof -
  let ?req = "post ''HomeWiFi'' ''hunter2''"
  let ?s1 = "world0\<lparr>wpa_file := Some (network_block ''HomeWiFi'' ''hunter2''),
        trace := [Mkdir True, Open True, Write (network_block ''HomeWiFi'' ''hunter2'') True]\<rparr>"
  let ?con = "[''nmcli'', ''device'', ''wifi'', ''connect'', ''HomeWiFi'', ''password'',
                ''hunter2'', ''ifname'', ''wlan0'']"
  have h1: "req_method ?req = ''POST''" by (rule post_fields)
  have h2: "''HomeWiFi'' = strip (form_get ?req ''ssid'')" by (simp add: post_fields)
  have h3: "''hunter2'' = strip (form_get ?req ''password'')" by (simp add: post_fields)
  have h4: "''HomeWiFi'' \<noteq> []" and h5: "''hunter2'' \<noteq> []" by simp_all
  have w: "write_wifi_credentials env_join_fails ''HomeWiFi'' ''hunter2'' world0 = (Inr (), ?s1)"
    by (rule write_HomeWiFi) (simp_all add: env_join_fails_def env_ok_def)
  have c: "connect_to_wifi env_join_fails ''HomeWiFi'' ''hunter2'' ?s1
             = (Inl (CalledProcessError 10 ?con),
                ?s1\<lparr>trace := trace ?s1 @
                   [Exec [''nmcli'', ''connection'', ''delete'', ''HomeWiFi''] False 0,
                    Exec ?con True 10]\<rparr>)"
    by (simp add: connect_to_wifi_eq Let_def env_join_fails_def env_ok_def world0_def)
  from portal_persist_then_connect[OF h1 h2 h3 h4 h5, of env_join_fails world0]
  have p: "portal env_join_fails ?req world0 =
             (render_form ''Connection failed. Please verify credentials and retry.'' True,
              ?s1\<lparr>trace := trace ?s1 @
                   [Exec [''nmcli'', ''connection'', ''delete'', ''HomeWiFi''] False 0,
                    Exec ?con True 10]\<rparr>)"
    by (simp add: w c)
  have f1: "fst (write_wifi_credentials env_join_fails ''HomeWiFi'' ''hunter2'' world0) = Inr ()"
    by (simp add: w)
  have f2: "fst (connect_to_wifi env_join_fails ''HomeWiFi'' ''hunter2''
             (snd (write_wifi_credentials env_join_fails ''HomeWiFi'' ''hunter2'' world0)))
       = Inl (CalledProcessError 10 ?con)"
    by (simp add: w c)
  have f3: "fst (portal env_join_fails ?req world0)
       = render_form ''Connection failed. Please verify credentials and retry.'' True"
    by (simp add: p)
  have f4: "wpa_file (snd (portal env_join_fails ?req world0))
       = Some (network_block ''HomeWiFi'' ''hunter2'')"
    by (simp add: p)
  let ?d1 = "world0\<lparr>wpa_file := Some (newline # ''network={''),
            trace := [Mkdir True, Open True, Write (newline # ''network={'') False]\<rparr>"
  have dw: "write_wifi_credentials env_disk_full ''HomeWiFi'' ''hunter2'' world0
              = (Inl OSError, ?d1)"
    using write_absent[OF absent_world0, of env_disk_full "''HomeWiFi''" "''hunter2''"]
    by (simp add: env_disk_full_def env_ok_def world0_def network_block_def)
  then have d1: "fst (write_wifi_credentials env_disk_full ''HomeWiFi'' ''hunter2'' world0)
                  = Inl OSError"
    by simp
  from portal_persist_then_connect[OF h1 h2 h3 h4 h5, of env_disk_full world0]
  have dp: "portal env_disk_full ?req world0 =
       (render_form ''Connection failed. Please verify credentials and retry.'' True, ?d1)"
    by (simp add: dw)
  let ?nreq = "post ssid_nul ''hunter2''"
  let ?n1 = "world0\<lparr>wpa_file := Some (network_block ssid_nul ''hunter2''),
            trace := [Mkdir True, Open True, Write (network_block ssid_nul ''hunter2'') True]\<rparr>"
  have n1: "req_method ?nreq = ''POST''" by (rule post_nul_fields)
  have n2: "ssid_nul = strip (form_get ?nreq ''ssid'')" by (simp add: post_nul_fields)
  have n3: "''hunter2'' = strip (form_get ?nreq ''password'')" by (simp add: post_nul_fields)
  have n4: "ssid_nul \<noteq> []" by (simp add: ssid_nul_def)
  have nc: "connect_to_wifi env_ok ssid_nul ''hunter2'' ?n1 = (Inl ValueError, ?n1)"
    by (simp add: connect_to_wifi_eq Let_def) (simp add: ssid_nul_def)
  from portal_persist_then_connect[OF n1 n2 n3 n4 h5, of env_ok world0]
  have np: "portal env_ok ?nreq world0 =
       (render_form ''Connection failed. Please verify credentials and retry.'' True, ?n1)"
    by (simp add: write_nul_world0 nc)
  show ?thesis
    by (intro conjI h1 h2 h3 h4 h5 f1 f2 f3 f4 d1 dp n2 n4 np)
qed

section \<open>Shutdown sequencer\<close>

text \<open>
  C6. When both \<open>write_wifi_credentials\<close> and \<open>connect_to_wifi\<close> return without an
  exception, the portal starts the shutdown thread (the event \<open>ThreadStart\<close>, after
  everything the two calls did) and returns the success page. The body of the
  thread, in whatever world it runs and whatever the commands answer, sleeps 2
  seconds, runs \<open>stop_hotspot\<close> (one command when a profile name is remembered, none
  otherwise), sleeps 1 second and exits the process with status 0. (With a remembered
  name that holds a NUL, which the network manager does not print, \<open>stop_hotspot\<close>
  raises before starting a command and the thread ends there.)
\<close>

theorem portal_success_arms_shutdown:
  assumes "req_method req = ''POST''"
    and "ssid = strip (form_get req ''ssid'')"
    and "password = strip (form_get req ''password'')"
    and "ssid \<noteq> []" and "password \<noteq> []"
    and "write_wifi_credentials env ssid password s = (Inr (), s1)"
    and "connect_to_wifi env ssid password s1 = (Inr (), s2)"
  shows "portal env req s =
           (render_form ''Wi-Fi connected successfully. Hotspot is shutting down.'' False,
            schedule_shutdown s2)
         \<and> schedule_shutdown s2 = s2\<lparr>trace := trace s2 @ [ThreadStart]\<rparr>
         \<and> render_form ''Wi-Fi connected successfully. Hotspot is shutting down.'' False
             = \<lparr>color = ''#166534'',
                safe_message = ''Wi-Fi connected successfully. Hotspot is shutting down.''\<rparr>
         \<and> shutdown env' w =
             (if nul \<in> set (HOTSPOT_CONNECTION_NAME w) then w\<lparr>trace := trace w @ [Sleep 2]\<rparr>
              else w\<lparr>trace := trace w @ [Sleep 2]
                @ (if HOTSPOT_CONNECTION_NAME w = [] then []
                   else [Exec [''nmcli'', ''connection'', ''down'', HOTSPOT_CONNECTION_NAME w] False
                          (fst (subprocess env' (trace w @ [Sleep 2])
                             [''nmcli'', ''connection'', ''down'', HOTSPOT_CONNECTION_NAME w]))])
                @ [Sleep 1, Exit 0]\<rparr>)"
proof (intro conjI render_success shutdown_eq)
  note p = portal_valid[OF assms(1) assms(4)[unfolded assms(2)] assms(5)[unfolded assms(3)],
      of env s, folded assms(2) assms(3)]
  from assms(6,7) show "portal env req s =
           (render_form ''Wi-Fi connected successfully. Hotspot is shutting down.'' False,
            schedule_shutdown s2)"
    by (simp add: p seq_def)
  show "schedule_shutdown s2 = s2\<lparr>trace := trace s2 @ [ThreadStart]\<rparr>"
    by (simp add: schedule_shutdown_def)
qed

theorem portal_success_arms_shutdown_witness:
  "req_method (post ''HomeWiFi'' ''hunter2'') = ''POST''
   \<and> ''HomeWiFi'' = strip (form_get (post ''HomeWiFi'' ''hunter2'') ''ssid'')
   \<and> ''hunter2'' = strip (form_get (post ''HomeWiFi'' ''hunter2'') ''password'')
   \<and> ''HomeWiFi'' \<noteq> [] \<and> ''hunter2'' \<noteq> []
   \<and> fst (write_wifi_credentials env_ok ''HomeWiFi'' ''hunter2'' world0) = Inr ()
   \<and> fst (connect_to_wifi env_ok ''HomeWiFi'' ''hunter2''
             (snd (write_wifi_credentials env_ok ''HomeWiFi'' ''hunter2'' world0))) = Inr ()
   \<and> fst (portal env_ok (post ''HomeWiFi'' ''hunter2'') world0)
       = \<lparr>color = ''#166534'',
          safe_message = ''Wi-Fi connected successfully. Hotspot is shutting down.''\<rparr>
   \<and> trace (snd (portal env_ok (post ''HomeWiFi'' ''hunter2'') world0))
       = [Mkdir True, Open True, Write (network_block ''HomeWiFi'' ''hunter2'') True,
          Exec [''nmcli'', ''connection'', ''delete'', ''HomeWiFi''] False 0,
          Exec [''nmcli'', ''device'', ''wifi'', ''connect'', ''HomeWiFi'', ''password'',
                ''hunter2'', ''ifname'', ''wlan0''] True 0,
          ThreadStart]
   \<and> trace (shutdown env_join_fails world0)
       = [Sleep 2, Exec [''nmcli'', ''connection'', ''down'', ''Hotspot''] False 0,
          Sleep 1, Exit 0]"
proof -
  let ?req = "post ''HomeWiFi'' ''hunter2''"
  let ?s1 = "world0\<lparr>wpa_file := Some (network_block ''HomeWiFi'' ''hunter2''),
        trace := [Mkdir True, Open True, Write (network_block ''HomeWiFi'' ''hunter2'') True]\<rparr>"
  let ?con = "[''nmcli'', ''device'', ''wifi'', ''connect'', ''HomeWiFi'', ''password'',
                ''hunter2'', ''ifname'', ''wlan0'']"
  let ?s2 = "?s1\<lparr>trace := trace ?s1 @
                   [Exec [''nmcli'', ''connection'', ''delete'', ''HomeWiFi''] False 0,
                    Exec ?con True 0]\<rparr>"
  have h1: "req_method ?req = ''POST''" by (rule post_fields)
  have h2: "''HomeWiFi'' = strip (form_get ?req ''ssid'')" by (simp add: post_fields)
  have h3: "''hunter2'' = strip (form_get ?req ''password'')" by (simp add: post_fields)
  have h4: "''HomeWiFi'' \<noteq> []" and h5: "''hunter2'' \<noteq> []" by simp_all
  have w: "write_wifi_credentials env_ok ''HomeWiFi'' ''hunter2'' world0 = (Inr (), ?s1)"
    by (rule write_HomeWiFi) (simp_all add: env_ok_def)
  have c: "connect_to_wifi env_ok ''HomeWiFi'' ''hunter2'' ?s1 = (Inr (), ?s2)"
    by (simp add: connect_to_wifi_eq Let_def env_ok_def world0_def)
  note t = portal_success_arms_shutdown[OF h1 h2 h3 h4 h5 w c,
      where env' = env_join_fails and w = world0]
  from t have p: "portal env_ok ?req world0 =
      (\<lparr>color = ''#166534'',
         safe_message = ''Wi-Fi connected successfully. Hotspot is shutting down.''\<rparr>,
       ?s2\<lparr>trace := trace ?s2 @ [ThreadStart]\<rparr>)"
    by simp
  have name: "HOTSPOT_CONNECTION_NAME world0 = ''Hotspot''" "trace world0 = []"
    by (simp_all add: world0_def)
  from t have sh: "shutdown env_join_fails world0 =
             (if nul \<in> set (HOTSPOT_CONNECTION_NAME world0)
              then world0\<lparr>trace := trace world0 @ [Sleep 2]\<rparr>
              else world0\<lparr>trace := trace world0 @ [Sleep 2]
                @ (if HOTSPOT_CONNECTION_NAME world0 = [] then []
                   else [Exec [''nmcli'', ''connection'', ''down'', HOTSPOT_CONNECTION_NAME world0] False
                          (fst (subprocess env_join_fails (trace world0 @ [Sleep 2])
                             [''nmcli'', ''connection'', ''down'', HOTSPOT_CONNECTION_NAME world0]))])
                @ [Sleep 1, Exit 0]\<rparr>)"
    by blast
  have f1: "fst (write_wifi_credentials env_ok ''HomeWiFi'' ''hunter2'' world0) = Inr ()"
    by (simp add: w)
  have f2: "fst (connect_to_wifi env_ok ''HomeWiFi'' ''hunter2''
             (snd (write_wifi_credentials env_ok ''HomeWiFi'' ''hunter2'' world0))) = Inr ()"
    by (simp add: w c)
  have f3: "fst (portal env_ok ?req world0)
       = \<lparr>color = ''#166534'',
          safe_message = ''Wi-Fi connected successfully. Hotspot is shutting down.''\<rparr>"
    by (simp add: p)
  have f4: "trace (snd (portal env_ok ?req world0))
       = [Mkdir True, Open True, Write (network_block ''HomeWiFi'' ''hunter2'') True,
          Exec [''nmcli'', ''connection'', ''delete'', ''HomeWiFi''] False 0,
          Exec ?con True 0, ThreadStart]"
    by (simp add: p)
  have f5: "trace (shutdown env_join_fails world0)
       = [Sleep 2, Exec [''nmcli'', ''connection'', ''down'', ''Hotspot''] False 0,
          Sleep 1, Exit 0]"
    by (simp add: sh name) (simp add: env_join_fails_def env_ok_def)
  show ?thesis
    by (intro conjI h1 h2 h3 h4 h5 f1 f2 f3 f4 f5)
qed

section \<open>The presence check and different SSIDs\<close>

text \<open>
  An escaped string followed by a double quote is self-delimiting: reading on from the
  same place, two of them end at the same quote only when they escape the same text.
\<close>

lemma escape_wpa_delimited:
  "escape_wpa a @ dquote # r1 = escape_wpa b @ dquote # r2 \<Longrightarrow> a = b"
proof (induction a arbitrary: b)
  case Nil
  then show ?case
    by (cases b) (auto simp: escape_wpa_Nil escape_wpa_Cons escape_char_def split: if_splits)
next
  case (Cons c a)
  show ?case
  proof (cases b)
    case Nil
    with Cons.prems show ?thesis
      by (auto simp: escape_wpa_Nil escape_wpa_Cons escape_char_def split: if_splits)
  next
    case (Cons d b')
    with Cons.prems have "c = d \<and> escape_wpa a @ dquote # r1 = escape_wpa b' @ dquote # r2"
      by (auto simp: escape_wpa_Cons escape_char_def split: if_splits)
    with Cons.IH Cons show ?thesis by blast
  qed
qed

lemma escape_wpa_inj: "escape_wpa a = escape_wpa b \<Longrightarrow> a = b"
  using escape_wpa_delimited[of a "[]" b "[]"] by simp

lemma lf_found: "str_in (ssid_entry ssid_lf) (network_block ssid_lf ''pw'')"
  using ssid_entry_in_block[of ssid_lf "[]" "''pw''"] by simp

text \<open>
  C10. \<open>escape_wpa\<close> is injective. The presence check nevertheless takes the record of
  one SSID for the record of another: after \<open>("a\rb", "pw")\<close> alone has been persisted
  on a fresh device, the text read back holds a line feed in the place of the carriage
  return, so the entry of the different SSID \<open>a\nb\<close> is found in it. Both SSIDs are as
  \<open>strip\<close> leaves them and their escaped forms differ; the call for \<open>a\nb\<close> is taken
  for a repetition and writes nothing.
\<close>

theorem presence_check_carriage_return:
  "inj escape_wpa
   \<and> ssid_cr \<noteq> ssid_lf
   \<and> strip ssid_cr = ssid_cr \<and> strip ssid_lf = ssid_lf
   \<and> escape_wpa ssid_cr \<noteq> escape_wpa ssid_lf
   \<and> \<not> ssid_present ssid_lf world0
   \<and> wpa_file (snd (write_wifi_credentials env_ok ssid_cr ''pw'' world0))
       = Some (network_block ssid_cr ''pw'')
   \<and> ssid_present ssid_lf (snd (write_wifi_credentials env_ok ssid_cr ''pw'' world0))
   \<and> write_wifi_credentials env_ok ssid_lf ''hunter2''
         (snd (write_wifi_credentials env_ok ssid_cr ''pw'' world0))
       = (Inr (), snd (write_wifi_credentials env_ok ssid_cr ''pw'' world0))"
proof -
  let ?w1 = "snd (write_wifi_credentials env_ok ssid_cr ''pw'' world0)"
  have i: "inj escape_wpa"
    by (rule injI) (rule escape_wpa_inj)
  have d: "ssid_cr \<noteq> ssid_lf"
    by (simp add: ssid_cr_def ssid_lf_def)
  with i have e: "escape_wpa ssid_cr \<noteq> escape_wpa ssid_lf"
    by (auto dest: injD)
  have a: "\<not> ssid_present ssid_lf world0"
    by (rule absent_world0)
  have f: "wpa_file ?w1 = Some (network_block ssid_cr ''pw'')"
    by (simp add: write_cr_world0)
  then have p: "ssid_present ssid_lf ?w1"
    using lf_found by (simp add: ssid_present_def read_existing_def read_back_cr)
  then have n: "write_wifi_credentials env_ok ssid_lf ''hunter2'' ?w1 = (Inr (), ?w1)"
    by (rule write_present)
  show ?thesis
    by (intro conjI i d strip_ssids e a f p n)
qed

end
